theory Spec2Isabelle
  imports Complex_Main
begin

section \<open>Errors raised by the handler and by the libraries it calls\<close>

datatype error = ValueError | OverflowError | KeyError | TypeError | IndexError | AttributeError
  | FileNotFoundError | ConnectionError

section \<open>Calendar dates (Python \<open>datetime.date\<close>)\<close>

text \<open>
  \<open>_convert_date\<close> parses with \<open>datetime.strptime\<close>, adds or subtracts a
  \<open>timedelta\<close> and prints with \<open>strftime\<close>. The three library operations are
  modelled after their reference implementation: a date is a proleptic Gregorian
  triple with \<open>1 \<le> year \<le> 9999\<close>, arithmetic goes through the day ordinal
  (day 1 is 0001-01-01) and a result outside the range raises \<open>OverflowError\<close>.
\<close>

record date =
  year :: int
  month :: int
  day :: int

definition MAXORDINAL :: int where
  "MAXORDINAL = 3652059"

definition DAYS_IN_MONTH :: "int list" where
  "DAYS_IN_MONTH = [-1, 31, 28, 31, 30, 31, 30, 31, 31, 30, 31, 30, 31]"

definition DAYS_BEFORE_MONTH :: "int list" where
  "DAYS_BEFORE_MONTH = [-1, 0, 31, 59, 90, 120, 151, 181, 212, 243, 273, 304, 334]"

definition is_leap :: "int \<Rightarrow> bool" where
  "is_leap y = (y mod 4 = 0 \<and> (y mod 100 \<noteq> 0 \<or> y mod 400 = 0))"

definition days_before_year :: "int \<Rightarrow> int" where
  "days_before_year y = (let p = y - 1 in p * 365 + p div 4 - p div 100 + p div 400)"

definition days_in_month :: "int \<Rightarrow> int \<Rightarrow> int" where
  "days_in_month y m = (if m = 2 \<and> is_leap y then 29 else DAYS_IN_MONTH ! nat m)"

definition days_before_month :: "int \<Rightarrow> int \<Rightarrow> int" where
  "days_before_month y m = DAYS_BEFORE_MONTH ! nat m + (if 2 < m \<and> is_leap y then 1 else 0)"

definition ymd2ord :: "int \<Rightarrow> int \<Rightarrow> int \<Rightarrow> int" where
  "ymd2ord y m d = days_before_year y + days_before_month y m + d"

definition ord2ymd :: "int \<Rightarrow> date" where
  "ord2ymd n0 =
    (let n = n0 - 1;
         n400 = n div 146097; n = n mod 146097;
         y = n400 * 400 + 1;
         n100 = n div 36524; n = n mod 36524;
         n4 = n div 1461; n = n mod 1461;
         n1 = n div 365; n = n mod 365;
         y = y + n100 * 100 + n4 * 4 + n1
     in if n1 = 4 \<or> n100 = 4 then \<lparr>year = y - 1, month = 12, day = 31\<rparr>
        else
          let leapyear = (n1 = 3 \<and> (n4 \<noteq> 24 \<or> n100 = 3));
              m = (n + 50) div 32;
              preceding = DAYS_BEFORE_MONTH ! nat m + (if 2 < m \<and> leapyear then 1 else 0)
          in if n < preceding
             then let m = m - 1;
                      preceding = preceding - (DAYS_IN_MONTH ! nat m + (if m = 2 \<and> leapyear then 1 else 0))
                  in \<lparr>year = y, month = m, day = n - preceding + 1\<rparr>
             else \<lparr>year = y, month = m, day = n - preceding + 1\<rparr>)"

definition valid_date :: "int \<Rightarrow> int \<Rightarrow> int \<Rightarrow> bool" where
  "valid_date y m d = (1 \<le> y \<and> y \<le> 9999 \<and> 1 \<le> m \<and> m \<le> 12 \<and> 1 \<le> d \<and> d \<le> days_in_month y m)"

definition toordinal :: "date \<Rightarrow> int" where
  "toordinal dt = ymd2ord (year dt) (month dt) (day dt)"

definition date_add_days :: "date \<Rightarrow> int \<Rightarrow> error + date" where
  "date_add_days dt k =
    (let ordinal = toordinal dt + k
     in if 0 < ordinal \<and> ordinal \<le> MAXORDINAL then Inr (ord2ymd ordinal) else Inl OverflowError)"

subsection \<open>Parsing and printing with the format \<open>%Y-%m-%d\<close>\<close>

definition digit_chars :: string where
  "digit_chars = ''0123456789''"

definition digit_of :: "char \<Rightarrow> int" where
  "digit_of c = int (of_char c) - 48"

definition is_digit :: "char \<Rightarrow> bool" where
  "is_digit c = (c \<in> set digit_chars)"

definition is_nonzero_digit :: "char \<Rightarrow> bool" where
  "is_nonzero_digit c = (c \<in> set ''123456789'')"

definition digit_char :: "int \<Rightarrow> char" where
  "digit_char k = digit_chars ! nat k"

text \<open>The directive \<open>%Y\<close> is the regular expression \<open>\d\d\d\d\<close>.\<close>

fun match_Y :: "string \<Rightarrow> (int \<times> string) option" where
  "match_Y (a # b # c # d # rest) =
     (if is_digit a \<and> is_digit b \<and> is_digit c \<and> is_digit d
      then Some (1000 * digit_of a + 100 * digit_of b + 10 * digit_of c + digit_of d, rest)
      else None)"
| "match_Y _ = None"

text \<open>The directive \<open>%m\<close> is \<open>1[0-2]|0[1-9]|[1-9]\<close>, tried in this order.\<close>

fun match_m :: "string \<Rightarrow> (int \<times> string) option" where
  "match_m (a # b # rest) =
     (if a = CHR ''1'' \<and> b \<in> set ''012'' then Some (10 + digit_of b, rest)
      else if a = CHR ''0'' \<and> is_nonzero_digit b then Some (digit_of b, rest)
      else if is_nonzero_digit a then Some (digit_of a, b # rest)
      else None)"
| "match_m [a] = (if is_nonzero_digit a then Some (digit_of a, []) else None)"
| "match_m [] = None"

text \<open>The directive \<open>%d\<close> is \<open>3[0-1]|[1-2]\d|0[1-9]|[1-9]| [1-9]\<close>.\<close>

fun match_d :: "string \<Rightarrow> (int \<times> string) option" where
  "match_d (a # b # rest) =
     (if a = CHR ''3'' \<and> b \<in> set ''01'' then Some (30 + digit_of b, rest)
      else if a \<in> set ''12'' \<and> is_digit b then Some (10 * digit_of a + digit_of b, rest)
      else if a = CHR ''0'' \<and> is_nonzero_digit b then Some (digit_of b, rest)
      else if is_nonzero_digit a then Some (digit_of a, b # rest)
      else if a = CHR '' '' \<and> is_nonzero_digit b then Some (digit_of b, rest)
      else None)"
| "match_d [a] = (if is_nonzero_digit a then Some (digit_of a, []) else None)"
| "match_d [] = None"

fun match_dash :: "string \<Rightarrow> string option" where
  "match_dash (c # rest) = (if c = CHR ''-'' then Some rest else None)"
| "match_dash [] = None"

text \<open>
  \<open>datetime.strptime(s, '%Y-%m-%d').date()\<close>: the string must match the pattern with
  nothing left over, and the fields must name a date of the calendar; everything else is
  a \<open>ValueError\<close>.
\<close>

definition strptime :: "string \<Rightarrow> error + date" where
  "strptime s =
    (case match_Y s of None \<Rightarrow> Inl ValueError | Some (y, s1) \<Rightarrow>
     case match_dash s1 of None \<Rightarrow> Inl ValueError | Some s2 \<Rightarrow>
     case match_m s2 of None \<Rightarrow> Inl ValueError | Some (m, s3) \<Rightarrow>
     case match_dash s3 of None \<Rightarrow> Inl ValueError | Some s4 \<Rightarrow>
     case match_d s4 of None \<Rightarrow> Inl ValueError | Some (d, s5) \<Rightarrow>
       if s5 \<noteq> [] then Inl ValueError
       else if valid_date y m d then Inr \<lparr>year = y, month = m, day = d\<rparr>
       else Inl ValueError)"

definition pad2 :: "int \<Rightarrow> string" where
  "pad2 k = [digit_char (k div 10), digit_char (k mod 10)]"

definition pad4 :: "int \<Rightarrow> string" where
  "pad4 k = [digit_char (k div 1000), digit_char (k div 100 mod 10),
             digit_char (k div 10 mod 10), digit_char (k mod 10)]"

definition iso_format :: "int \<Rightarrow> int \<Rightarrow> int \<Rightarrow> string" where
  "iso_format y m d = pad4 y @ ''-'' @ pad2 m @ ''-'' @ pad2 d"

definition strftime :: "date \<Rightarrow> string" where
  "strftime dt = iso_format (year dt) (month dt) (day dt)"

section \<open>The Date Resolver: \<open>OuraDataHandler._convert_date\<close>\<close>

definition convert_date :: "string \<Rightarrow> string option \<Rightarrow> error + string" where
  "convert_date input_date period =
    (case strptime input_date of
       Inl e \<Rightarrow> Inl e
     | Inr parsed_date \<Rightarrow>
        (case (if period = Some ''week'' then date_add_days parsed_date (- 7)
               else if period = Some ''month'' then date_add_days parsed_date (- 30)
               else if period = Some ''year'' then date_add_days parsed_date (- 365)
               else if period = Some ''day'' then date_add_days parsed_date 1
               else Inr parsed_date) of
           Inl e \<Rightarrow> Inl e
         | Inr adjusted_date \<Rightarrow> Inr (strftime adjusted_date)))"


section \<open>Values, tables and observable effects\<close>

text \<open>
  A cell of a table or a node of a JSON document. \<open>VNull\<close> stands for a missing value
  (JSON \<open>null\<close>, Python \<open>None\<close>, the \<open>NaN\<close> pandas stores for an absent cell).
\<close>

datatype val =
    VNull
  | VBool bool
  | VNum real
  | VStr string
  | VList "val list"
  | VObj "(string \<times> val) list"

text \<open>Python truthiness, as used by \<open>if not response_json\<close>.\<close>

fun truthy :: "val \<Rightarrow> bool" where
  "truthy VNull = False"
| "truthy (VBool b) = b"
| "truthy (VNum x) = (x \<noteq> 0)"
| "truthy (VStr s) = (s \<noteq> [])"
| "truthy (VList xs) = (xs \<noteq> [])"
| "truthy (VObj kvs) = (kvs \<noteq> [])"

text \<open>
  The Table (a pandas \<open>DataFrame\<close>): column names and rows of cells, a row holding one
  cell per column. \<open>pd.DataFrame()\<close> has neither columns nor rows; \<open>df.empty\<close> holds
  as soon as one of the two axes has length zero.
\<close>

record dataframe =
  columns :: "string list"
  rows :: "val list list"

definition empty_frame :: dataframe where
  "empty_frame = \<lparr>columns = [], rows = []\<rparr>"

definition df_empty :: "dataframe \<Rightarrow> bool" where
  "df_empty df = (columns df = [] \<or> rows df = [])"

fun index_of :: "'a \<Rightarrow> 'a list \<Rightarrow> nat" where
  "index_of x [] = 0"
| "index_of x (y # ys) = (if x = y then 0 else Suc (index_of x ys))"

definition cell :: "val list \<Rightarrow> nat \<Rightarrow> val" where
  "cell r i = (if i < length r then r ! i else VNull)"

text \<open>\<open>df[c]\<close>: the cells of column \<open>c\<close>, a \<open>KeyError\<close> when there is no such column.\<close>

definition get_column :: "dataframe \<Rightarrow> string \<Rightarrow> error + val list" where
  "get_column df c =
    (if c \<in> set (columns df) then Inr (map (\<lambda>r. cell r (index_of c (columns df))) (rows df))
     else Inl KeyError)"

text \<open>\<open>df.loc[mask]\<close>: the rows whose mask entry is true, in their order.\<close>

definition select_rows :: "dataframe \<Rightarrow> bool list \<Rightarrow> dataframe" where
  "select_rows df keep = df\<lparr>rows := map fst (filter snd (zip (rows df) keep))\<rparr>"

text \<open>
  \<open>pd.DataFrame.from_dict(records, orient='columns')\<close> for a list of JSON objects: the
  columns are the keys in order of first appearance, a record without a key gets a
  missing cell. The API answers \<open>{"data": [record, ...]}\<close>; a payload of another shape
  is outside that contract and modelled as a \<open>ValueError\<close>.
\<close>

fun record_fields :: "val \<Rightarrow> (string \<times> val) list option" where
  "record_fields (VObj kvs) = Some kvs"
| "record_fields _ = None"

definition lookup_cell :: "(string \<times> val) list \<Rightarrow> string \<Rightarrow> val" where
  "lookup_cell kvs c = (case map_of kvs c of None \<Rightarrow> VNull | Some v \<Rightarrow> v)"

definition frame_of_records :: "(string \<times> val) list list \<Rightarrow> dataframe" where
  "frame_of_records recs =
    (let cs = rev (remdups (rev (concat (map (map fst) recs))))
     in \<lparr>columns = cs, rows = map (\<lambda>kvs. map (lookup_cell kvs) cs) recs\<rparr>)"

definition from_dict :: "val \<Rightarrow> error + dataframe" where
  "from_dict v =
    (case v of
       VList items \<Rightarrow>
         (if list_all (\<lambda>i. record_fields i \<noteq> None) items
          then Inr (frame_of_records (map (\<lambda>i. the (record_fields i)) items))
          else Inl ValueError)
     | _ \<Rightarrow> Inl ValueError)"

text \<open>What a call returns: a Table, or nothing (a bare \<open>return\<close>).\<close>

datatype ret = Frame dataframe | NoReturn

record request =
  url :: string
  headers :: "(string \<times> string) list"
  params :: "(string \<times> string) list"
  timeout :: nat

text \<open>
  A floating-point result: a finite number, an infinity or \<open>NaN\<close>. Finite numbers are
  exact reals, so rounding is not modelled; division by zero and the undefined cases
  follow IEEE 754 as numpy applies it to arrays (no exception, \<open>NaN\<close> or an infinity).
\<close>

datatype fl = Fin real | PInf | NInf | NaN

text \<open>
  Everything a call does besides returning: lines printed, HTTP requests sent, files
  written, artists added to the chart, the chart shown, Markdown displayed. A call
  returns its result together with the list of its effects in the order they happen.
\<close>

datatype event =
    Print string
  | PrintNoNewline string
  | Get request
  | WriteCsv string dataframe
  | NewFigure
  | PlotLine "val list" "val list" string string
  | PlotSeries "int list" "fl list" string string
  | HLine fl string string
  | VLine val string
  | Scatter "val list" "val list" string
  | XTicks "int list" "string list"
  | Axes string string string
  | Legend
  | ShowFigure
  | DisplayMarkdown string

section \<open>The handler and its two loaders\<close>

record handler =
  api_address :: string
  local_data_paths :: "(string \<times> string) list"
  access_token :: "string option"

text \<open>Python 3 compares strings by code point, lexicographically.\<close>

fun str_le :: "string \<Rightarrow> string \<Rightarrow> bool" where
  "str_le [] t = True"
| "str_le (a # s) [] = False"
| "str_le (a # s) (b # t) = ((of_char a :: nat) < of_char b \<or> (a = b \<and> str_le s t))"

text \<open>
  \<open>df['day'] >= bound\<close> and \<open>df['day'] <= bound\<close> on one cell: a string is compared, a
  missing cell compares false, any other cell cannot be compared with a string.
\<close>

fun cell_ge :: "string \<Rightarrow> val \<Rightarrow> error + bool" where
  "cell_ge bound (VStr s) = Inr (str_le bound s)"
| "cell_ge bound VNull = Inr False"
| "cell_ge bound _ = Inl TypeError"

fun cell_le :: "string \<Rightarrow> val \<Rightarrow> error + bool" where
  "cell_le bound (VStr s) = Inr (str_le s bound)"
| "cell_le bound VNull = Inr False"
| "cell_le bound _ = Inl TypeError"

fun sequence :: "(error + 'a) list \<Rightarrow> error + 'a list" where
  "sequence [] = Inr []"
| "sequence (x # xs) =
     (case x of Inl e \<Rightarrow> Inl e
      | Inr v \<Rightarrow> (case sequence xs of Inl e \<Rightarrow> Inl e | Inr vs \<Rightarrow> Inr (v # vs)))"

text \<open>\<open>df.loc[(df['day'] >= lo) & (df['day'] <= hi)]\<close>\<close>

definition filter_days :: "dataframe \<Rightarrow> string \<Rightarrow> string \<Rightarrow> error + dataframe" where
  "filter_days df lo hi =
    (case get_column df ''day'' of
       Inl e \<Rightarrow> Inl e
     | Inr days \<Rightarrow>
        (case sequence (map (cell_ge lo) days) of
           Inl e \<Rightarrow> Inl e
         | Inr ge \<Rightarrow>
            (case sequence (map (cell_le hi) days) of
               Inl e \<Rightarrow> Inl e
             | Inr le \<Rightarrow> Inr (select_rows df (map (\<lambda>(a, b). a \<and> b) (zip ge le))))))"

subsection \<open>\<open>OuraDataHandler.load_data_from_csv\<close>\<close>

text \<open>
  \<open>read_csv\<close> is the file system seen through \<open>pd.read_csv\<close>: the table stored under a
  path, or the error raised for it.
\<close>

definition load_data_from_csv ::
  "handler \<Rightarrow> (string \<Rightarrow> error + dataframe) \<Rightarrow> string \<Rightarrow> string \<Rightarrow> string option \<Rightarrow>
   string option \<Rightarrow> (error + ret) \<times> event list" where
  "load_data_from_csv h read_csv data_type start_date end_date duration =
    (case map_of (local_data_paths h) data_type of
       None \<Rightarrow> (Inr (Frame empty_frame), [Print ''Invalid data type for CSV!''])
     | Some file_path \<Rightarrow>
        if file_path = [] then (Inr (Frame empty_frame), [Print ''Invalid data type for CSV!''])
        else
          (case read_csv file_path of
             Inl e \<Rightarrow> (Inl e, [])
           | Inr df \<Rightarrow>
              (case end_date of
                 None \<Rightarrow>
                   (case convert_date start_date duration of
                      Inl e \<Rightarrow> (Inl e, [])
                    | Inr target_date \<Rightarrow>
                       (map_sum id Frame (filter_days df target_date start_date), []))
               | Some end_date' \<Rightarrow>
                   (map_sum id Frame (filter_days df start_date end_date'), []))))"

subsection \<open>\<open>OuraDataHandler.fetch_data_from_api\<close>\<close>

definition valid_data_types :: "string list" where
  "valid_data_types = [''sleep'', ''daily_sleep'', ''daily_activity'', ''daily_readiness'',
     ''daily_spo2'', ''heartrate'', ''daily_stress'']"

definition token_missing :: "string option \<Rightarrow> bool" where
  "token_missing tok = (case tok of None \<Rightarrow> True | Some s \<Rightarrow> s = [])"

definition format_opt :: "string option \<Rightarrow> string" where
  "format_opt s = (case s of None \<Rightarrow> ''None'' | Some t \<Rightarrow> t)"

text \<open>The request parameters (the block under \<open># Build request parameters\<close>).\<close>

definition build_params ::
  "string \<Rightarrow> string \<Rightarrow> string option \<Rightarrow> string option \<Rightarrow> error + (string \<times> string) list" where
  "build_params data_type start_date end_date duration =
    (case end_date of
       None \<Rightarrow>
         (case convert_date start_date duration of
            Inl e \<Rightarrow> Inl e
          | Inr new_start_day \<Rightarrow>
             if data_type \<noteq> ''heartrate''
             then Inr [(''start_date'', new_start_day), (''end_date'', start_date)]
             else
               (case convert_date start_date (Some ''day'') of
                  Inl e \<Rightarrow> Inl e
                | Inr new_end_day \<Rightarrow>
                   Inr [(''start_datetime'', new_start_day), (''end_datetime'', new_end_day)]))
     | Some end_date' \<Rightarrow> Inr [(''start_date'', start_date), (''end_date'', end_date')])"

text \<open>\<open>response.json().get('data', [])\<close>\<close>

fun json_get_data :: "val \<Rightarrow> error + val" where
  "json_get_data (VObj kvs) = Inr (case map_of kvs ''data'' of None \<Rightarrow> VList [] | Some v \<Rightarrow> v)"
| "json_get_data _ = Inl AttributeError"

text \<open>
  \<open>df.to_csv(filename, index=False)\<close>: with a path the file is written; with
  \<open>None\<close> pandas returns the CSV text and writes nothing.
\<close>

definition to_csv :: "dataframe \<Rightarrow> string option \<Rightarrow> event list" where
  "to_csv df filename = (case filename of None \<Rightarrow> [] | Some path \<Rightarrow> [WriteCsv path df])"

text \<open>
  \<open>server\<close> is the network seen through \<open>requests.get(...).json()\<close>: the decoded body
  of the answer to a request, or the error raised.
\<close>

definition fetch_data_from_api ::
  "handler \<Rightarrow> (request \<Rightarrow> error + val) \<Rightarrow> string \<Rightarrow> string \<Rightarrow> string option \<Rightarrow>
   string option \<Rightarrow> bool \<Rightarrow> string option \<Rightarrow> (error + ret) \<times> event list" where
  "fetch_data_from_api h server data_type start_date end_date duration save_file filename =
    (if token_missing (access_token h) then (Inr (Frame empty_frame), [Print ''Invalid token!''])
     else if data_type \<notin> set valid_data_types
       then (Inr (Frame empty_frame), [Print ''Invalid data type!''])
     else
       let ev0 = [PrintNoNewline (''Requesting '' @ data_type @ '' data... '')] in
       (case build_params data_type start_date end_date duration of
          Inl e \<Rightarrow> (Inl e, ev0)
        | Inr ps \<Rightarrow>
           let req = \<lparr>url = api_address h @ ''/v2/usercollection/'' @ data_type,
                      headers = [(''Authorization'', ''Bearer '' @ format_opt (access_token h))],
                      params = ps, timeout = 10\<rparr>;
               ev1 = ev0 @ [Get req] in
           (case server req of
              Inl e \<Rightarrow> (Inl e, ev1)
            | Inr body \<Rightarrow>
               (case json_get_data body of
                  Inl e \<Rightarrow> (Inl e, ev1)
                | Inr response_json \<Rightarrow>
                   if \<not> truthy response_json
                   then (Inr (Frame empty_frame), ev1 @ [Print ''No data received.''])
                   else
                     let ev2 = ev1 @ [Print ''done!''] in
                     (case from_dict response_json of
                        Inl e \<Rightarrow> (Inl e, ev2)
                      | Inr df \<Rightarrow>
                         if save_file \<and> df_empty df
                         then (Inr NoReturn, ev2 @ [Print ''No data available to save.''])
                         else (Inr (Frame df),
                               ev2 @ (if save_file then to_csv df filename else []) @
                               [Print (''Data successfully saved to '' @ format_opt filename)]))))))"

section \<open>Sequencing effects\<close>

text \<open>
  A step either raises, keeping the effects it had so far, or returns a value; the next
  step runs only after a value and adds its effects.
\<close>

type_synonym 'a eff = "(error + 'a) \<times> event list"

definition and_then :: "'a eff \<Rightarrow> ('a \<Rightarrow> 'b eff) \<Rightarrow> 'b eff" where
  "and_then m f =
    (case m of
       (Inl e, evs) \<Rightarrow> (Inl e, evs)
     | (Inr a, evs) \<Rightarrow> (case f a of (r, evs') \<Rightarrow> (r, evs @ evs')))"

definition emit :: "event list \<Rightarrow> unit eff" where
  "emit evs = (Inr (), evs)"

definition lift :: "error + 'a \<Rightarrow> 'a eff" where
  "lift r = (r, [])"

definition succeed :: "'a \<Rightarrow> 'a eff" where
  "succeed a = (Inr a, [])"

section \<open>Numeric columns and the Anomaly Detector\<close>

fun fsub :: "fl \<Rightarrow> fl \<Rightarrow> fl" where
  "fsub (Fin a) (Fin b) = Fin (a - b)"
| "fsub NaN y = NaN"
| "fsub x NaN = NaN"
| "fsub PInf PInf = NaN"
| "fsub NInf NInf = NaN"
| "fsub PInf y = PInf"
| "fsub NInf y = NInf"
| "fsub (Fin a) PInf = NInf"
| "fsub (Fin a) NInf = PInf"

fun fdiv :: "fl \<Rightarrow> fl \<Rightarrow> fl" where
  "fdiv (Fin a) (Fin b) =
     (if b \<noteq> 0 then Fin (a / b) else if a = 0 then NaN else if 0 < a then PInf else NInf)"
| "fdiv NaN y = NaN"
| "fdiv x NaN = NaN"
| "fdiv (Fin a) y = Fin 0"
| "fdiv PInf (Fin b) = (if 0 \<le> b then PInf else NInf)"
| "fdiv NInf (Fin b) = (if 0 \<le> b then NInf else PInf)"
| "fdiv x y = NaN"

fun fabs :: "fl \<Rightarrow> fl" where
  "fabs (Fin a) = Fin \<bar>a\<bar>"
| "fabs PInf = PInf"
| "fabs NInf = PInf"
| "fabs NaN = NaN"

text \<open>\<open>x > y\<close> on floating-point values: false as soon as one side is \<open>NaN\<close>.\<close>

fun fgt :: "fl \<Rightarrow> fl \<Rightarrow> bool" where
  "fgt (Fin a) (Fin b) = (b < a)"
| "fgt NaN y = False"
| "fgt x NaN = False"
| "fgt PInf PInf = False"
| "fgt PInf y = True"
| "fgt NInf y = False"
| "fgt (Fin a) NInf = True"
| "fgt (Fin a) PInf = False"

text \<open>
  The cells of a numeric column are numbers and missing values; a column holding
  anything else cannot be averaged.
\<close>

fun to_float :: "val \<Rightarrow> error + fl" where
  "to_float (VNum x) = Inr (Fin x)"
| "to_float VNull = Inr NaN"
| "to_float _ = Inl TypeError"

definition column_floats :: "dataframe \<Rightarrow> string \<Rightarrow> error + fl list" where
  "column_floats df c =
    (case get_column df c of Inl e \<Rightarrow> Inl e | Inr vs \<Rightarrow> sequence (map to_float vs))"

text \<open>\<open>series.dropna().values\<close>\<close>

fun dropna :: "fl list \<Rightarrow> real list" where
  "dropna [] = []"
| "dropna (Fin x # xs) = x # dropna xs"
| "dropna (y # xs) = dropna xs"

text \<open>\<open>series.mean()\<close> skips missing values and is \<open>NaN\<close> when none is left.\<close>

definition series_mean :: "fl list \<Rightarrow> fl" where
  "series_mean xs =
    (let vs = dropna xs in if vs = [] then NaN else Fin (sum_list vs / real (length vs)))"

text \<open>
  \<open>series.rolling(window=w, min_periods=p)\<close>: at position \<open>i\<close> the window holds the
  last \<open>w\<close> samples up to and including \<open>i\<close>; the statistic is \<open>NaN\<close> when fewer than
  \<open>p\<close> of them are present. \<open>std\<close> is the sample standard deviation (one degree of
  freedom removed), \<open>NaN\<close> on fewer than two samples.
\<close>

definition trailing_window :: "nat \<Rightarrow> fl list \<Rightarrow> nat \<Rightarrow> real list" where
  "trailing_window w xs i = dropna (drop (i + 1 - w) (take (i + 1) xs))"

definition rolling_mean :: "nat \<Rightarrow> nat \<Rightarrow> fl list \<Rightarrow> fl list" where
  "rolling_mean w p xs =
    map (\<lambda>i. let vs = trailing_window w xs i
              in if length vs < p \<or> vs = [] then NaN else Fin (sum_list vs / real (length vs)))
        [0..<length xs]"

definition std_dev :: "real list \<Rightarrow> real" where
  "std_dev vs =
    (let mu = sum_list vs / real (length vs)
     in sqrt (sum_list (map (\<lambda>v. (v - mu)\<^sup>2) vs) / (real (length vs) - 1)))"

definition sample_std :: "real list \<Rightarrow> fl" where
  "sample_std vs = (if length vs < 2 then NaN else Fin (std_dev vs))"

definition rolling_std :: "nat \<Rightarrow> nat \<Rightarrow> fl list \<Rightarrow> fl list" where
  "rolling_std w p xs =
    map (\<lambda>i. let vs = trailing_window w xs i
              in if length vs < p then NaN else sample_std vs)
        [0..<length xs]"

text \<open>
  The anomaly block of \<open>plot_data\<close>: the rolling statistics over 7 samples with at least
  1, the z-score of each point, and the mask \<open>abs(z_scores) > anomaly_threshold\<close>.
\<close>

definition z_scores :: "fl list \<Rightarrow> fl list" where
  "z_scores xs =
    map (\<lambda>(x, m, s). fdiv (fsub x m) s) (zip xs (zip (rolling_mean 7 1 xs) (rolling_std 7 1 xs)))"

definition anomaly_mask :: "fl list \<Rightarrow> fl \<Rightarrow> bool list" where
  "anomaly_mask xs anomaly_threshold = map (\<lambda>z. fgt (fabs z) anomaly_threshold) (z_scores xs)"

section \<open>The Trend Detector\<close>

text \<open>
  \<open>rpt.Pelt(model=cost).fit(signal).predict(pen=penalty)\<close> comes from the library
  \<open>ruptures\<close>; the handler only calls it. It is a parameter of the model: a function
  from the cost model, the signal and the penalty to the cut indices, or to the error
  it raises.
\<close>

type_synonym pelt = "string \<Rightarrow> real list \<Rightarrow> fl \<Rightarrow> error + nat list"

text \<open>\<open>np.log(len(signal))\<close>: minus infinity for an empty signal.\<close>

definition log_of_length :: "nat \<Rightarrow> real" where
  "log_of_length n = ln (real n)"

definition np_log :: "nat \<Rightarrow> fl" where
  "np_log n = (if n = 0 then NInf else Fin (log_of_length n))"


text \<open>\<open>series.iloc[i]\<close>\<close>

definition iloc :: "'a list \<Rightarrow> nat \<Rightarrow> error + 'a" where
  "iloc xs i = (if i < length xs then Inr (xs ! i) else Inl IndexError)"

text \<open>
  The loop \<open>for cp in change_points[:-1]\<close>: each marker reads \<open>df['day'].iloc[cp]\<close> and
  draws a vertical line there.
\<close>

fun draw_change_points :: "dataframe \<Rightarrow> nat list \<Rightarrow> unit eff" where
  "draw_change_points df [] = succeed ()"
| "draw_change_points df (cp # cps) =
     and_then (lift (get_column df ''day'')) (\<lambda>days.
     and_then (lift (iloc days cp)) (\<lambda>change_date.
     and_then (emit [VLine change_date ''Change Point'']) (\<lambda>_.
     draw_change_points df cps)))"

definition detect_trends_block :: "pelt \<Rightarrow> string \<Rightarrow> dataframe \<Rightarrow> string \<Rightarrow> unit eff" where
  "detect_trends_block pelt cost df column =
     and_then (lift (column_floats df column)) (\<lambda>ys.
     let signal = dropna ys in
     and_then (lift (pelt cost signal (np_log (length signal)))) (\<lambda>change_points.
     draw_change_points df (butlast change_points)))"

definition detect_anomalies_block :: "dataframe \<Rightarrow> string \<Rightarrow> fl \<Rightarrow> unit eff" where
  "detect_anomalies_block df column anomaly_threshold =
     and_then (lift (column_floats df column)) (\<lambda>ys.
     let anomalies = select_rows df (anomaly_mask ys anomaly_threshold) in
     if \<not> df_empty anomalies
     then and_then (lift (get_column anomalies ''day'')) (\<lambda>days.
          and_then (lift (get_column anomalies column)) (\<lambda>vals.
          emit [Scatter days vals ''Anomalies'']))
     else succeed ())"

section \<open>The Renderer: \<open>OuraDataHandler.plot_data\<close>\<close>

definition plot_data ::
  "pelt \<Rightarrow> dataframe \<Rightarrow> string \<Rightarrow> string \<Rightarrow> string \<Rightarrow> string \<Rightarrow> string list option \<Rightarrow>
   string option \<Rightarrow> bool \<Rightarrow> int \<Rightarrow> bool \<Rightarrow> fl \<Rightarrow> ret eff" where
  "plot_data pelt df column y_label title caption x_labels column2 detect_trends n_bkps
      detect_anomalies anomaly_threshold =
    (if df_empty df then (Inr NoReturn, [Print ''No data to plot.''])
     else
       and_then (emit [NewFigure]) (\<lambda>_.
       and_then (lift (column_floats df column)) (\<lambda>ys.
       and_then (lift (get_column df ''day'')) (\<lambda>days.
       and_then (lift (get_column df column)) (\<lambda>vals.
       and_then (emit [PlotLine days vals ''black'' (''Daily '' @ column),
                       HLine (series_mean ys) ''blue'' (''Mean '' @ column)]) (\<lambda>_.
       and_then
         (case column2 of
            None \<Rightarrow> succeed ()
          | Some c2 \<Rightarrow>
             if c2 = [] then succeed ()
             else
               and_then (lift (column_floats df c2)) (\<lambda>ys2.
               and_then (lift (get_column df c2)) (\<lambda>vals2.
               emit [PlotLine days vals2 ''red'' (''Daily '' @ c2),
                     HLine (series_mean ys2) ''green'' (''Mean '' @ c2)]))) (\<lambda>_.
       and_then (if detect_trends then detect_trends_block pelt ''l2'' df column else succeed ()) (\<lambda>_.
       and_then (if detect_anomalies then detect_anomalies_block df column anomaly_threshold
                 else succeed ()) (\<lambda>_.
       and_then (emit [Axes ''Day'' y_label title, Legend, ShowFigure]) (\<lambda>_.
       and_then (if caption \<noteq> [] then emit [DisplayMarkdown (''**Figure:** '' @ caption)]
                 else succeed ()) (\<lambda>_.
       succeed NoReturn)))))))))))"


section \<open>The deep-sleep view: \<open>OuraDataHandler.get_deep_sleep_duration\<close>\<close>

text \<open>
  \<open>pd.json_normalize\<close> on a column of JSON objects. The fields that are not objects
  keep their names and places; a field that is an object is replaced, after them, by its
  own fields under the names \<open>field.subfield\<close>, at every depth. A cell that is no
  object has no \<open>items\<close>.
\<close>

fun flatten_val :: "string \<Rightarrow> val \<Rightarrow> (string \<times> val) list"
  and flatten_fields :: "string \<Rightarrow> (string \<times> val) list \<Rightarrow> (string \<times> val) list" where
  "flatten_val key (VObj kvs) = flatten_fields key kvs"
| "flatten_val key v = [(key, v)]"
| "flatten_fields prefix [] = []"
| "flatten_fields prefix (kv # kvs) =
     flatten_val (prefix @ ''.'' @ fst kv) (snd kv) @ flatten_fields prefix kvs"




text \<open>\<open>df.drop(columns=[c])\<close>\<close>

definition drop_column :: "dataframe \<Rightarrow> string \<Rightarrow> error + dataframe" where
  "drop_column df c =
    (if c \<in> set (columns df)
     then Inr \<lparr>columns = filter (\<lambda>n. n \<noteq> c) (columns df),
               rows = map (\<lambda>r. map snd (filter (\<lambda>nv. fst nv \<noteq> c) (zip (columns df) r))) (rows df)\<rparr>
     else Inl KeyError)"




text \<open>\<open>df.empty\<close> on what a loader returned; \<open>None\<close> has no such attribute.\<close>

fun the_frame :: "ret \<Rightarrow> error + dataframe" where
  "the_frame (Frame df) = Inr df"
| "the_frame NoReturn = Inl AttributeError"


section \<open>The daily view: \<open>OuraDataHandler.get_and_plot_daily_data\<close>\<close>

subsection \<open>Labels\<close>

text \<open>\<open>data_type.replace("_", " ").capitalize()\<close>, for the ASCII letters.\<close>

definition to_upper :: "char \<Rightarrow> char" where
  "to_upper c = (let n = of_char c :: nat in if 97 \<le> n \<and> n \<le> 122 then char_of (n - 32) else c)"

definition to_lower :: "char \<Rightarrow> char" where
  "to_lower c = (let n = of_char c :: nat in if 65 \<le> n \<and> n \<le> 90 then char_of (n + 32) else c)"

fun capitalize :: "string \<Rightarrow> string" where
  "capitalize [] = []"
| "capitalize (c # cs) = to_upper c # map to_lower cs"

definition type_label :: "string \<Rightarrow> string" where
  "type_label data_type =
     capitalize (map (\<lambda>c. if c = CHR ''_'' then CHR '' '' else c) data_type)"

subsection \<open>The SpO2 normalisation\<close>

text \<open>\<open>df.dropna(subset=[c])\<close>\<close>

definition dropna_rows :: "dataframe \<Rightarrow> string \<Rightarrow> error + dataframe" where
  "dropna_rows df c =
    (case get_column df c of
       Inl e \<Rightarrow> Inl e
     | Inr vs \<Rightarrow> Inr (select_rows df (map (\<lambda>v. v \<noteq> VNull) vs)))"

text \<open>\<open>x['average']\<close> on one cell.\<close>

fun subscript_average :: "val \<Rightarrow> error + val" where
  "subscript_average (VObj kvs) =
     (case map_of kvs ''average'' of None \<Rightarrow> Inl KeyError | Some v \<Rightarrow> Inr v)"
| "subscript_average _ = Inl TypeError"

text \<open>\<open>df[c] = values\<close> for a column the table has.\<close>

definition set_column :: "dataframe \<Rightarrow> string \<Rightarrow> val list \<Rightarrow> dataframe" where
  "set_column df c vs =
     df\<lparr>rows := map (\<lambda>(r, v). r[index_of c (columns df) := v]) (zip (rows df) vs)\<rparr>"

definition extract_spo2_average :: "dataframe \<Rightarrow> error + dataframe" where
  "extract_spo2_average df =
    (case dropna_rows df ''spo2_percentage'' of
       Inl e \<Rightarrow> Inl e
     | Inr df' \<Rightarrow>
        (case get_column df' ''spo2_percentage'' of
           Inl e \<Rightarrow> Inl e
         | Inr cells \<Rightarrow>
            (case sequence (map subscript_average cells) of
               Inl e \<Rightarrow> Inl e
             | Inr averages \<Rightarrow> Inr (set_column df' ''spo2_percentage'' averages))))"

subsection \<open>The aggregated view\<close>

text \<open>
  \<open>pd.to_datetime\<close> is pandas' timestamp parser; it is a parameter of the model and
  gives the day ordinal of each cell of a column, or the error it raises.
\<close>

type_synonym to_datetime = "val list \<Rightarrow> error + int list"

text \<open>
  \<open>series.resample(f'{n}D').mean()\<close> on a series sorted by day: buckets of \<open>n\<close> days
  from the first day to the last, each with the mean of its values.
\<close>

definition resample_mean :: "int \<Rightarrow> (int \<times> fl) list \<Rightarrow> error + (int \<times> fl) list" where
  "resample_mean n series =
    (if n \<le> 0 then Inl ValueError
     else if series = [] then Inr []
     else
       let first = fst (hd series); final = fst (last series)
       in Inr (map (\<lambda>k. (first + k * n,
                        series_mean (map snd (filter (\<lambda>tv. first + k * n \<le> fst tv \<and>
                                                        fst tv < first + k * n + n) series))))
                   [0..(final - first) div n]))"

definition date_label :: "int \<Rightarrow> error + string" where
  "date_label ordinal =
    (if 0 < ordinal \<and> ordinal \<le> MAXORDINAL then Inr (strftime (ord2ymd ordinal))
     else Inl OverflowError)"

definition period_label :: "int \<Rightarrow> int \<Rightarrow> error + string" where
  "period_label n start =
    (case date_label start of
       Inl e \<Rightarrow> Inl e
     | Inr a \<Rightarrow> (case date_label (start + (n - 1)) of
                   Inl e \<Rightarrow> Inl e
                 | Inr b \<Rightarrow> Inr (a @ '' to '' @ b)))"

text \<open>
  \<open>df['day'] = pd.to_datetime(df['day'])\<close> followed by
  \<open>df = df.set_index('day').sort_index()\<close>: the column \<open>day\<close> leaves the table and
  becomes its index, and the rows are ordered by it. The result is the index and the
  table that is left.
\<close>

definition reindex_by_day :: "to_datetime \<Rightarrow> dataframe \<Rightarrow> error + int list \<times> dataframe" where
  "reindex_by_day to_datetime df =
    (case get_column df ''day'' of
       Inl e \<Rightarrow> Inl e
     | Inr days \<Rightarrow>
        (case to_datetime days of
           Inl e \<Rightarrow> Inl e
         | Inr stamps \<Rightarrow>
            (case drop_column df ''day'' of
               Inl e \<Rightarrow> Inl e
             | Inr body \<Rightarrow>
                let sorted = sort_key fst (zip stamps (rows body))
                in Inr (map fst sorted, body\<lparr>rows := map snd sorted\<rparr>))))"

text \<open>The branch for \<open>peacewisedDays \<noteq> 1\<close>, once the column to plot is chosen.\<close>

definition plot_aggregated ::
  "pelt \<Rightarrow> to_datetime \<Rightarrow> dataframe \<Rightarrow> string \<Rightarrow> string \<Rightarrow> string \<Rightarrow> int \<Rightarrow> bool \<Rightarrow>
   bool \<Rightarrow> fl \<Rightarrow> ret eff" where
  "plot_aggregated pelt to_datetime df0 data_type column caption peacewisedDays detect_trends
      detect_anomalies anomaly_threshold =
     and_then (lift (reindex_by_day to_datetime df0)) (\<lambda>(index, df).
     and_then (lift (column_floats df column)) (\<lambda>ys.
     and_then (lift (resample_mean peacewisedDays (zip index ys))) (\<lambda>df_resampled.
     and_then (lift (sequence (map (period_label peacewisedDays) (map fst df_resampled))))
       (\<lambda>period_labels.
     if df_empty df then (Inr NoReturn, [Print ''No data to plot.''])
     else
       let y_label = type_label data_type @ '' '' @ column;
           title = ''Daily '' @ type_label data_type
       in
       and_then (emit [NewFigure,
                       PlotSeries (map fst df_resampled) (map snd df_resampled) ''black''
                         (''Daily '' @ y_label),
                       HLine (series_mean ys) ''blue'' ''Mean score'']) (\<lambda>_.
       and_then (if detect_trends then detect_trends_block pelt ''rbf'' df column
                 else succeed ()) (\<lambda>_.
       and_then (if detect_anomalies then detect_anomalies_block df column anomaly_threshold
                 else succeed ()) (\<lambda>_.
       and_then (emit [XTicks (map fst df_resampled) period_labels,
                       Axes ''Day'' y_label title, Legend, ShowFigure]) (\<lambda>_.
       and_then (if caption \<noteq> [] then emit [DisplayMarkdown (''**Figure:** '' @ caption)]
                 else emit [Print ''out of range of peacewised Days'']) (\<lambda>_.
       succeed NoReturn)))))))))"

subsection \<open>The entry point\<close>

definition get_and_plot_daily_data ::
  "handler \<Rightarrow> (string \<Rightarrow> error + dataframe) \<Rightarrow> (request \<Rightarrow> error + val) \<Rightarrow> pelt \<Rightarrow>
   to_datetime \<Rightarrow> string \<Rightarrow> string \<Rightarrow> string \<Rightarrow> string option \<Rightarrow> string option \<Rightarrow> string \<Rightarrow>
   int \<Rightarrow> bool \<Rightarrow> int \<Rightarrow> bool \<Rightarrow> fl \<Rightarrow> ret eff" where
  "get_and_plot_daily_data h read_csv server pelt to_datetime data_type source start_date end_date
      duration caption peacewisedDays detect_trends n_bkps detect_anomalies anomaly_threshold =
    (let plot = (\<lambda>r.
           and_then (lift (the_frame r)) (\<lambda>df.
           if df_empty df then (Inr NoReturn, [Print ''No data available to plot.''])
           else if peacewisedDays = 1 then
             (if data_type = ''daily_spo2''
              then and_then (if source = ''api'' then lift (extract_spo2_average df)
                             else succeed df) (\<lambda>df.
                   plot_data pelt df ''spo2_percentage'' (type_label data_type @ '' Score'')
                     (''Daily '' @ type_label data_type) caption None None detect_trends n_bkps
                     detect_anomalies anomaly_threshold)
              else plot_data pelt df ''score'' (type_label data_type @ '' Score'')
                     (''Daily '' @ type_label data_type) caption None None detect_trends n_bkps
                     detect_anomalies anomaly_threshold)
           else
             (if data_type = ''daily_spo2''
              then and_then (if source = ''api'' then lift (extract_spo2_average df)
                             else succeed df) (\<lambda>df.
                   plot_aggregated pelt to_datetime df data_type ''spo2_percentage'' caption
                     peacewisedDays detect_trends detect_anomalies anomaly_threshold)
              else plot_aggregated pelt to_datetime df data_type ''score'' caption
                     peacewisedDays detect_trends detect_anomalies anomaly_threshold)))
     in
     if source = ''csv''
     then and_then (load_data_from_csv h read_csv data_type start_date end_date duration) plot
     else if source = ''api''
     then and_then (fetch_data_from_api h server data_type start_date end_date duration
                      False None) plot
     else (Inr NoReturn, [Print ''Invalid data source!'']))"

section \<open>Notions used to state the properties\<close>













section \<open>Example inputs\<close>

text \<open>
  A handler, a CSV file, API answers, a changepoint detector and a timestamp parser on
  which the properties are exercised.
\<close>

definition example_handler :: handler where
  "example_handler = \<lparr>api_address = ''https://api.ouraring.com'',
     local_data_paths = [(''daily_sleep'', ''daily_sleep.csv'')],
     access_token = Some ''TOKEN''\<rparr>"

definition example_table :: dataframe where
  "example_table = \<lparr>columns = [''day'', ''score''],
     rows = [[VStr ''2023-10-01'', VNum 70], [VStr ''2023-10-02'', VNum 75],
             [VStr ''2023-10-20'', VNull], [VStr ''2023-11-01'', VNum 80],
             [VStr ''2023-11-02'', VNum 85]]\<rparr>"

definition example_read_csv :: "string \<Rightarrow> error + dataframe" where
  "example_read_csv path = (if path = ''daily_sleep.csv'' then Inr example_table else Inl FileNotFoundError)"

definition example_server :: "request \<Rightarrow> error + val" where
  "example_server req = Inr (VObj [(''data'',
     VList [VObj [(''day'', VStr ''2023-11-01''), (''score'', VNum 80)],
            VObj [(''day'', VStr ''2023-11-02''), (''score'', VNum 85)]])])"


definition example_pelt :: pelt where
  "example_pelt cost signal penalty = (if cost = ''l2'' then Inr [1, 2, length signal] else Inr [length signal])"

definition example_to_datetime :: to_datetime where
  "example_to_datetime cells =
     sequence (map (\<lambda>v. case v of VStr s \<Rightarrow> map_sum id toordinal (strptime s)
                              | _ \<Rightarrow> Inl ValueError) cells)"

definition example_sleep_records :: "(string \<times> val) list list" where
  "example_sleep_records =
     [[(''id'', VStr ''a1''),
       (''contributors'', VObj [(''deep_sleep'', VNum 80), (''efficiency'', VNum 95)]),
       (''day'', VStr ''2023-11-01''), (''score'', VNum 82)],
      [(''id'', VStr ''b2''),
       (''contributors'', VObj [(''deep_sleep'', VNum 67), (''efficiency'', VNum 90)]),
       (''day'', VStr ''2023-11-02''), (''score'', VNum 75)]]"

definition example_sleep_server :: "request \<Rightarrow> error + val" where
  "example_sleep_server req = Inr (VObj [(''data'', VList (map VObj example_sleep_records))])"


section \<open>Properties of the calendar model\<close>

subsection \<open>Printing a date and parsing it again\<close>

lemma digit_cases: "0 \<le> k \<Longrightarrow> k \<le> 9 \<Longrightarrow> k = 0 \<or> k = 1 \<or> k = 2 \<or> k = 3 \<or> k = 4 \<or> k = 5 \<or> k = 6 \<or> k = 7 \<or> k = 8 \<or> k = (9::int)"
  by arith



lemma is_nonzero_digit_char: 
  assumes "1 \<le> k" "k \<le> 9" shows "is_nonzero_digit (digit_char k)"
proof -
  have "0 \<le> k" using assms by simp
  from digit_cases [OF this assms(2)] assms(1) show ?thesis
    by (elim disjE) (simp_all add: is_nonzero_digit_def digit_char_def digit_chars_def)
qed









subsection \<open>The day ordinal and its inverse\<close>





section \<open>Properties of the Date Resolver\<close>






text \<open>
  Claim C2: the worked examples of the specification, which are also the assertions of
  \<open>tests/test_oura_data_handler.py::test_convert_date\<close>:
  \<open>_convert_date("2023-12-08", "week")\<close> is expected to be \<open>"2023-12-04"\<close> and
  \<open>_convert_date("2023-12-08", "day")\<close> to be \<open>"2023-12-09"\<close>.
  The second holds. For the first the code subtracts seven days and returns
  \<open>"2023-12-01"\<close>, so the code and its own test disagree.
\<close>

theorem convert_date_worked_examples:
  "convert_date ''2023-12-08'' (Some ''week'') = Inr ''2023-12-01'' \<and>
   convert_date ''2023-12-08'' (Some ''week'') \<noteq> Inr ''2023-12-04'' \<and>
   convert_date ''2023-12-08'' (Some ''day'') = Inr ''2023-12-09''"
  by code_simp

section \<open>Properties of the CSV loader\<close>







subsection \<open>String order on ISO dates is calendar order\<close>










section \<open>Properties of the API loader\<close>

text \<open>
  Claim C5: every heart-rate request carries the window under the keys
  \<open>start_datetime\<close> and \<open>end_datetime\<close>. The code does so only when \<open>end_date\<close> is
  omitted (second equation). When the caller supplies \<open>end_date\<close>, the branch for it
  has no case for \<open>heartrate\<close> and the request carries \<open>start_date\<close> and
  \<open>end_date\<close>, as for every other data type (first and third equation).
\<close>

theorem heartrate_window_with_end_date:
  "build_params ''heartrate'' start_date (Some end_date) duration =
     Inr [(''start_date'', start_date), (''end_date'', end_date)] \<and>
   build_params ''heartrate'' ''2023-12-08'' None None =
     Inr [(''start_datetime'', ''2023-12-08''), (''end_datetime'', ''2023-12-09'')] \<and>
   snd (fetch_data_from_api example_handler example_server ''heartrate'' ''2023-12-08''
          (Some ''2023-12-09'') None False None) ! 1 =
     Get \<lparr>url = ''https://api.ouraring.com/v2/usercollection/heartrate'',
          headers = [(''Authorization'', ''Bearer TOKEN'')],
          params = [(''start_date'', ''2023-12-08''), (''end_date'', ''2023-12-09'')],
          timeout = 10\<rparr>"
proof (intro conjI)
  show "build_params ''heartrate'' start_date (Some end_date) duration =
     Inr [(''start_date'', start_date), (''end_date'', end_date)]"
    by (simp add: build_params_def)
  show "build_params ''heartrate'' ''2023-12-08'' None None =
     Inr [(''start_datetime'', ''2023-12-08''), (''end_datetime'', ''2023-12-09'')]"
    by code_simp
  show "snd (fetch_data_from_api example_handler example_server ''heartrate'' ''2023-12-08''
          (Some ''2023-12-09'') None False None) ! 1 =
     Get \<lparr>url = ''https://api.ouraring.com/v2/usercollection/heartrate'',
          headers = [(''Authorization'', ''Bearer TOKEN'')],
          params = [(''start_date'', ''2023-12-08''), (''end_date'', ''2023-12-09'')],
          timeout = 10\<rparr>"
    by code_simp
qed




section \<open>Properties of the entry points\<close>




text \<open>
  Claim C9. \<open>n_bkps\<close> is accepted by \<open>plot_data\<close> and \<open>get_and_plot_daily_data\<close> and
  never read: two calls that differ only in it return the same result and have the same
  effects, change points and anomalies included.
\<close>

theorem n_bkps_never_read:
  "plot_data pelt df column y_label title caption x_labels column2 detect_trends n_bkps
      detect_anomalies anomaly_threshold =
   plot_data pelt df column y_label title caption x_labels column2 detect_trends n_bkps'
      detect_anomalies anomaly_threshold \<and>
   get_and_plot_daily_data h read_csv server pelt to_datetime data_type source start_date end_date
      duration caption peacewisedDays detect_trends n_bkps detect_anomalies anomaly_threshold =
   get_and_plot_daily_data h read_csv server pelt to_datetime data_type source start_date end_date
      duration caption peacewisedDays detect_trends n_bkps' detect_anomalies anomaly_threshold"
proof -
  have single: "\<And>d c yl t. plot_data pelt d c yl t caption None None detect_trends n_bkps
      detect_anomalies anomaly_threshold =
    plot_data pelt d c yl t caption None None detect_trends n_bkps' detect_anomalies
      anomaly_threshold"
    unfolding plot_data_def by (rule refl)
  have "plot_data pelt df column y_label title caption x_labels column2 detect_trends n_bkps
      detect_anomalies anomaly_threshold =
   plot_data pelt df column y_label title caption x_labels column2 detect_trends n_bkps'
      detect_anomalies anomaly_threshold"
    unfolding plot_data_def by (rule refl)
  moreover have "get_and_plot_daily_data h read_csv server pelt to_datetime data_type source
      start_date end_date duration caption peacewisedDays detect_trends n_bkps detect_anomalies
      anomaly_threshold =
   get_and_plot_daily_data h read_csv server pelt to_datetime data_type source start_date end_date
      duration caption peacewisedDays detect_trends n_bkps' detect_anomalies anomaly_threshold"
    unfolding get_and_plot_daily_data_def single by (rule refl)
  ultimately show ?thesis by (rule conjI)
qed

theorem n_bkps_never_read_witness:
  "get_and_plot_daily_data example_handler example_read_csv example_server example_pelt
      example_to_datetime ''daily_sleep'' ''csv'' ''2023-11-01'' None (Some ''month'') ''Sleep'' 1
      True 0 True (Fin 2) =
   get_and_plot_daily_data example_handler example_read_csv example_server example_pelt
      example_to_datetime ''daily_sleep'' ''csv'' ''2023-11-01'' None (Some ''month'') ''Sleep'' 1
      True 10 True (Fin 2)"
  using n_bkps_never_read [where n_bkps = 0 and n_bkps' = 10] by (rule conjunct2)

section \<open>Properties of the Anomaly Detector\<close>


lemma length_rolling [simp]:
  "length (rolling_mean w p xs) = length xs" "length (rolling_std w p xs) = length xs"
  by (simp_all add: rolling_mean_def rolling_std_def)

lemma length_z_scores [simp]: "length (z_scores xs) = length xs"
  by (simp add: z_scores_def)

lemma length_anomaly_mask [simp]: "length (anomaly_mask xs t) = length xs"
  by (simp add: anomaly_mask_def)











section \<open>Properties of the Trend Detector\<close>



lemma and_then_error: "and_then (Inl e, evs) f = (Inl e, evs)"
  by (simp add: and_then_def)















end
